theory Spec2Isabelle
  imports Main
begin

section \<open>JavaScript values of the Result library\<close>

text \<open>
  The library of \<^verbatim>\<open>src/main.ts\<close> is written against untyped JavaScript values
  (\<^verbatim>\<open>unknown\<close>, \<^verbatim>\<open>any\<close>), compares objects by reference and stores
  functions in object members. The model keeps all three:
  \<^item> every object value carries the address it was allocated at, so that HOL equality
    of two object values is JavaScript's \<^verbatim>\<open>===\<close>;
  \<^item> a function stored in a member is named by a tag of type \<open>fn\<close>: one tag for each
    function or closure of \<^verbatim>\<open>main.ts\<close> that ends up in a method table, a closure
    carrying the variable it captures, and \<open>Foreign\<close> for every function that is not
    the library's;
  \<^item> a promise carries the settlement it eventually reaches (or \<open>Pending\<close> when it
    never settles).
  Numbers are restricted to the integers. An \<open>ErrorObj\<close> is a native \<^verbatim>\<open>Error\<close>
  instance with its message and, when it was given one, its cause; its stack is part of
  the same object and therefore goes wherever the object's identity goes.
\<close>

type_synonym addr = nat

datatype fn =
    OkUnwrapOr
  | OkMap
  | ErrMap
  | MapOkAndErr
  | ReturnResult
  | OkOnOk
  | ErrOnErr
  | ErrUnwrapOrNull
  | ErrUnwrapOr
  | ErrUnwrap jsval
  | ErrorResult jsval
  | Foreign nat
and settlement =
    Fulfilled jsval
  | Rejected jsval
  | Pending
and jsval =
    Undefined
  | Null
  | Bool bool
  | Num int
  | Str string
  | ErrorObj addr string "jsval option"
  | Obj addr "(string \<times> jsval) list"
  | Arr addr "jsval list"
  | Fun fn
  | PromiseObj addr settlement

text \<open>
  The state threaded through the library: the next free address, from which every
  object the library creates is allocated, and the world of the caller, which only the
  caller's own functions read and change. An object that a function of the caller creates
  carries the address that function gives it; the library never looks at an address, it
  only hands values on.
\<close>

record 'w state =
  nextAddr :: addr
  world :: 'w

text \<open>
  A function supplied by the caller (\<^verbatim>\<open>mapFn\<close>, \<^verbatim>\<open>fn\<close>,
  \<^verbatim>\<open>errorNormalizer\<close>): it returns (\<open>Inr\<close>) or throws (\<open>Inl\<close>) a value and may
  change the caller's world.
\<close>

type_synonym 'w callback = "jsval \<Rightarrow> 'w \<Rightarrow> (jsval + jsval) \<times> 'w"

type_synonym 'w thunk = "'w \<Rightarrow> (jsval + jsval) \<times> 'w"

type_synonym 'w outcome = "(jsval + jsval) \<times> 'w state"

definition runCallback :: "'w callback \<Rightarrow> jsval \<Rightarrow> 'w state \<Rightarrow> 'w outcome" where
  "runCallback f x s = (case f x (world s) of (r, w') \<Rightarrow> (r, s\<lparr>world := w'\<rparr>))"

definition runThunk :: "'w thunk \<Rightarrow> 'w state \<Rightarrow> 'w outcome" where
  "runThunk f s = (case f (world s) of (r, w') \<Rightarrow> (r, s\<lparr>world := w'\<rparr>))"

text \<open>The arguments of a method call: plain values, a function, or the pair of functions
  \<^verbatim>\<open>{ ok, err }\<close>.\<close>

datatype 'w arg =
    Val jsval
  | Cb "'w callback"
  | CbPair "'w callback" "'w callback"

subsection \<open>Operators of the language\<close>

fun typeof :: "jsval \<Rightarrow> string" where
  "typeof Undefined = ''undefined''"
| "typeof Null = ''object''"
| "typeof (Bool b) = ''boolean''"
| "typeof (Num n) = ''number''"
| "typeof (Str t) = ''string''"
| "typeof (ErrorObj a m c) = ''object''"
| "typeof (Obj a ps) = ''object''"
| "typeof (Arr a xs) = ''object''"
| "typeof (Fun f) = ''function''"
| "typeof (PromiseObj a st) = ''object''"

text \<open>
  The members of an object. Members inherited from the prototypes of the built-in
  classes are left out: none of them has a name that the library reads or tests.
\<close>

fun members :: "jsval \<Rightarrow> (string \<times> jsval) list" where
  "members (Obj a ps) = ps"
| "members (ErrorObj a m c) =
     (''message'', Str m) # (case c of None \<Rightarrow> [] | Some v \<Rightarrow> [(''cause'', v)])"
| "members v = []"

definition getProp :: "jsval \<Rightarrow> string \<Rightarrow> jsval option" where
  "getProp v k = map_of (members v) k"

text \<open>\<^verbatim>\<open>k in v\<close>\<close>

definition hasProp :: "string \<Rightarrow> jsval \<Rightarrow> bool" where
  "hasProp k v = (getProp v k \<noteq> None)"

text \<open>\<^verbatim>\<open>v.k\<close> and \<^verbatim>\<open>v[k]\<close>: a missing member reads as \<^verbatim>\<open>undefined\<close>.\<close>

definition field :: "jsval \<Rightarrow> string \<Rightarrow> jsval" where
  "field v k = (case getProp v k of None \<Rightarrow> Undefined | Some x \<Rightarrow> x)"

fun truthy :: "jsval \<Rightarrow> bool" where
  "truthy Undefined = False"
| "truthy Null = False"
| "truthy (Bool b) = b"
| "truthy (Num n) = (n \<noteq> 0)"
| "truthy (Str t) = (t \<noteq> [])"
| "truthy v = True"

text \<open>\<^verbatim>\<open>v instanceof Error\<close>\<close>

fun instanceofError :: "jsval \<Rightarrow> bool" where
  "instanceofError (ErrorObj a m c) = True"
| "instanceofError v = False"

fun strOf :: "jsval \<Rightarrow> string" where
  "strOf (Str t) = t"
| "strOf v = []"

fun isArray :: "jsval \<Rightarrow> bool" where
  "isArray (Arr a xs) = True"
| "isArray v = False"

text \<open>\<^verbatim>\<open>new Error(message)\<close> and \<^verbatim>\<open>new Error(message, { cause })\<close>\<close>

definition newError :: "string \<Rightarrow> jsval option \<Rightarrow> 'w state \<Rightarrow> jsval \<times> 'w state" where
  "newError m c s = (ErrorObj (nextAddr s) m c, s\<lparr>nextAddr := Suc (nextAddr s)\<rparr>)"

subsection \<open>The imported primitives\<close>

text \<open>
  Modelled from the spec: \<^verbatim>\<open>isPlainObject\<close>, imported by \<^verbatim>\<open>main.ts\<close> as
  \<^verbatim>\<open>isObject\<close> from a package that is not part of the sources. A mapping-like
  object: an object that is neither \<^verbatim>\<open>null\<close> nor a sequence.
\<close>

definition isObject :: "jsval \<Rightarrow> bool" where
  "isObject v = (typeof v = ''object'' \<and> v \<noteq> Null \<and> \<not> isArray v)"

text \<open>
  Modelled from the spec: \<^verbatim>\<open>isThenable\<close>, imported as \<^verbatim>\<open>isPromise\<close>. A deferred
  value is an object with a callable \<^verbatim>\<open>then\<close>: a native promise, or an object that
  has such a member of its own.
\<close>

fun callable :: "jsval option \<Rightarrow> bool" where
  "callable (Some (Fun f)) = True"
| "callable v = False"

fun isNativePromise :: "jsval \<Rightarrow> bool" where
  "isNativePromise (PromiseObj a st) = True"
| "isNativePromise v = False"

definition isPromise :: "jsval \<Rightarrow> bool" where
  "isPromise v = (isNativePromise v \<or> (isObject v \<and> callable (getProp v ''then'')))"

text \<open>
  \<^verbatim>\<open>safeJsonStringify\<close> (the spec's \<^verbatim>\<open>safeStringify\<close>) is imported too. It never
  throws and answers with a text or with nothing; the functions below take it as their
  first argument \<open>S\<close>, so that what is proved of them holds for every such primitive.
\<close>

type_synonym stringifier = "jsval \<Rightarrow> string option"

section \<open>The library\<close>

subsection \<open>Sequencing\<close>

definition returned :: "jsval \<times> 'w state \<Rightarrow> 'w outcome" where
  "returned p = (Inr (fst p), snd p)"

definition andThen :: "'w outcome \<Rightarrow> (jsval \<Rightarrow> 'w state \<Rightarrow> 'w outcome) \<Rightarrow> 'w outcome" where
  "andThen r k = (case r of (Inl e, s) \<Rightarrow> (Inl e, s) | (Inr v, s) \<Rightarrow> k v s)"

subsection \<open>Error normalizer\<close>

definition unknownToError :: "stringifier \<Rightarrow> jsval \<Rightarrow> 'w state \<Rightarrow> jsval \<times> 'w state" where
  "unknownToError S error s =
     (if instanceofError error then (error, s)
      else if typeof error = ''string'' then newError (strOf error) None s
      else if isObject error then
        newError
          (if hasProp ''message'' error \<and> truthy (field error ''message'')
               \<and> typeof (field error ''message'') = ''string''
           then strOf (field error ''message'')
           else (case S error of Some t \<Rightarrow> t | None \<Rightarrow> ''unknown''))
          (Some error) s
      else newError (case S error of Some t \<Rightarrow> t | None \<Rightarrow> ''unknown'') (Some error) s)"

subsection \<open>Variant core\<close>

text \<open>The two method tables, in the order in which \<^verbatim>\<open>ok\<close> and \<^verbatim>\<open>err\<close> write
  them.\<close>

definition okMethods :: "(string \<times> jsval) list" where
  "okMethods =
     [(''unwrapOrNull'', Fun OkUnwrapOr),
      (''unwrapOr'', Fun OkUnwrapOr),
      (''unwrap'', Fun OkUnwrapOr),
      (''mapOk'', Fun OkMap),
      (''mapErr'', Fun ReturnResult),
      (''mapOkAndErr'', Fun MapOkAndErr),
      (''ifOk'', Fun OkOnOk),
      (''ifErr'', Fun ReturnResult),
      (''onOk'', Fun OkOnOk),
      (''onErr'', Fun ReturnResult)]"

definition errMethods :: "jsval \<Rightarrow> (string \<times> jsval) list" where
  "errMethods error =
     [(''unwrapOrNull'', Fun ErrUnwrapOrNull),
      (''unwrapOr'', Fun ErrUnwrapOr),
      (''unwrap'', Fun (ErrUnwrap error)),
      (''mapOk'', Fun ReturnResult),
      (''mapErr'', Fun ErrMap),
      (''mapOkAndErr'', Fun MapOkAndErr),
      (''ifOk'', Fun ReturnResult),
      (''onOk'', Fun ReturnResult),
      (''ifErr'', Fun ErrOnErr),
      (''onErr'', Fun ErrOnErr)]"

text \<open>\<^verbatim>\<open>ok()\<close> without an argument is \<open>ok Undefined\<close>.\<close>

definition ok :: "jsval \<Rightarrow> 'w state \<Rightarrow> jsval \<times> 'w state" where
  "ok v s =
     (Obj (nextAddr s)
        ([(''ok'', Bool True), (''error'', Bool False), (''value'', v)] @ okMethods),
      s\<lparr>nextAddr := Suc (nextAddr s)\<rparr>)"

definition err :: "jsval \<Rightarrow> 'w state \<Rightarrow> jsval \<times> 'w state" where
  "err error s =
     (Obj (nextAddr s)
        ([(''ok'', Bool False), (''error'', error), (''errorResult'', Fun (ErrorResult error))]
         @ errMethods error),
      s\<lparr>nextAddr := Suc (nextAddr s)\<rparr>)"

subsection \<open>Chaining operations\<close>

definition okUnwrapOr :: "jsval \<Rightarrow> jsval" where
  "okUnwrapOr this = field this ''value''"

definition okMap :: "jsval \<Rightarrow> 'w callback \<Rightarrow> 'w state \<Rightarrow> 'w outcome" where
  "okMap this mapFn s =
     (if truthy (field this ''ok'')
      then andThen (runCallback mapFn (field this ''value'') s) (\<lambda>v s'. returned (ok v s'))
      else (Inr this, s))"

definition errMap :: "jsval \<Rightarrow> 'w callback \<Rightarrow> 'w state \<Rightarrow> 'w outcome" where
  "errMap this mapFn s =
     (if truthy (field this ''ok'') then (Inr this, s)
      else andThen (runCallback mapFn (field this ''error'') s) (\<lambda>e s'. returned (err e s')))"

definition mapOkAndErr ::
  "jsval \<Rightarrow> 'w callback \<Rightarrow> 'w callback \<Rightarrow> 'w state \<Rightarrow> 'w outcome" where
  "mapOkAndErr this mapFn mapErrFn s =
     (if truthy (field this ''ok'')
      then andThen (runCallback mapFn (field this ''value'') s) (\<lambda>v s'. returned (ok v s'))
      else andThen (runCallback mapErrFn (field this ''error'') s) (\<lambda>e s'. returned (err e s')))"

definition returnResult :: "jsval \<Rightarrow> jsval" where
  "returnResult this = this"

definition okOnOk :: "jsval \<Rightarrow> 'w callback \<Rightarrow> 'w state \<Rightarrow> 'w outcome" where
  "okOnOk this fn s =
     (if truthy (field this ''ok'')
      then andThen (runCallback fn (field this ''value'') s) (\<lambda>u s'. (Inr this, s'))
      else (Inr this, s))"

definition errOnErr :: "jsval \<Rightarrow> 'w callback \<Rightarrow> 'w state \<Rightarrow> 'w outcome" where
  "errOnErr this fn s =
     (if \<not> truthy (field this ''ok'')
      then andThen (runCallback fn (field this ''error'') s) (\<lambda>u s'. (Inr this, s'))
      else (Inr this, s))"

text \<open>The closures that \<^verbatim>\<open>err\<close> builds over its argument \<^verbatim>\<open>error\<close>.\<close>

definition errUnwrapOrNull :: "jsval" where
  "errUnwrapOrNull = Null"

definition errUnwrapOr :: "jsval \<Rightarrow> jsval" where
  "errUnwrapOr defaultValue = defaultValue"

definition errUnwrap :: "stringifier \<Rightarrow> jsval \<Rightarrow> 'w state \<Rightarrow> 'w outcome" where
  "errUnwrap S error s =
     (if instanceofError error then (Inl error, s)
      else (case unknownToError S error s of (e, s') \<Rightarrow> (Inl e, s')))"

definition errorResult :: "jsval \<Rightarrow> 'w state \<Rightarrow> 'w outcome" where
  "errorResult error s = returned (err error s)"

subsection \<open>Calling a member\<close>

text \<open>
  \<open>call S f this args\<close> runs the function named by \<open>f\<close> with the given receiver.
  The answer is \<open>None\<close> where the library does not decide it: \<open>f\<close> is not one of its
  functions, or the arguments are not of the shape that the function's parameter types
  admit. \<open>invoke S r name args\<close> is the method call \<^verbatim>\<open>r.name(args)\<close>; it has
  no answer either when \<open>r\<close> has no callable member of that name, where the call fails
  before any function runs.
\<close>

fun call ::
  "stringifier \<Rightarrow> fn \<Rightarrow> jsval \<Rightarrow> 'w arg list \<Rightarrow> 'w state \<Rightarrow> 'w outcome option" where
  "call S OkUnwrapOr this args s = Some (Inr (okUnwrapOr this), s)"
| "call S OkMap this (Cb mapFn # args) s = Some (okMap this mapFn s)"
| "call S ErrMap this (Cb mapFn # args) s = Some (errMap this mapFn s)"
| "call S MapOkAndErr this (CbPair mapFn mapErrFn # args) s =
     Some (mapOkAndErr this mapFn mapErrFn s)"
| "call S ReturnResult this args s = Some (Inr (returnResult this), s)"
| "call S OkOnOk this (Cb fn # args) s = Some (okOnOk this fn s)"
| "call S ErrOnErr this (Cb fn # args) s = Some (errOnErr this fn s)"
| "call S ErrUnwrapOrNull this args s = Some (Inr errUnwrapOrNull, s)"
| "call S ErrUnwrapOr this [] s = Some (Inr (errUnwrapOr Undefined), s)"
| "call S ErrUnwrapOr this (Val defaultValue # args) s = Some (Inr (errUnwrapOr defaultValue), s)"
| "call S (ErrUnwrap error) this args s = Some (errUnwrap S error s)"
| "call S (ErrorResult error) this args s = Some (errorResult error s)"
| "call S f this args s = None"

definition invoke ::
  "stringifier \<Rightarrow> jsval \<Rightarrow> string \<Rightarrow> 'w arg list \<Rightarrow> 'w state \<Rightarrow> 'w outcome option" where
  "invoke S r name args s =
     (case getProp r name of Some (Fun f) \<Rightarrow> call S f r args s | _ \<Rightarrow> None)"

subsection \<open>Deferred values\<close>

text \<open>
  What a value leads to when a promise is resolved with it or when it is awaited: a native
  promise passes its own settlement on, any other value that is not a deferred value
  fulfils with itself. For a deferred value that is not a native promise the answer lies
  in a \<^verbatim>\<open>then\<close> that is not the library's (\<open>None\<close>).
\<close>

definition resolved :: "jsval \<Rightarrow> settlement option" where
  "resolved v =
     (case v of
        PromiseObj a st \<Rightarrow> Some st
      | _ \<Rightarrow> if isPromise v then None else Some (Fulfilled v))"

definition nullish :: "jsval \<Rightarrow> bool" where
  "nullish v = (v = Undefined \<or> v = Null)"

text \<open>
  An \<^verbatim>\<open>async\<close> function whose body starts with \<^verbatim>\<open>await p\<close> and goes on with
  \<open>body\<close>: the call allocates the promise it returns; that promise stays pending or
  rejects as \<open>p\<close> does, rejects with what the body throws and is resolved with what the
  body returns. The bodies below read members of the awaited value at once, and the
  declared types promise them an object; \<^verbatim>\<open>null\<close> and \<^verbatim>\<open>undefined\<close>, on which
  such a read would fail, are therefore left undecided.
\<close>

definition async ::
  "jsval \<Rightarrow> (jsval \<Rightarrow> 'w state \<Rightarrow> 'w outcome) \<Rightarrow> 'w state \<Rightarrow> (jsval \<times> 'w state) option" where
  "async p body s =
     (let a = nextAddr s; s0 = s\<lparr>nextAddr := Suc a\<rparr> in
      case resolved p of
        None \<Rightarrow> None
      | Some Pending \<Rightarrow> Some (PromiseObj a Pending, s0)
      | Some (Rejected x) \<Rightarrow> Some (PromiseObj a (Rejected x), s0)
      | Some (Fulfilled v) \<Rightarrow>
          if nullish v then None
          else (case body v s0 of
                  (Inl x, s1) \<Rightarrow> Some (PromiseObj a (Rejected x), s1)
                | (Inr y, s1) \<Rightarrow> map_option (\<lambda>st. (PromiseObj a st, s1)) (resolved y)))"

subsection \<open>Helpers of the namespace\<close>

definition unknownToResultError :: "stringifier \<Rightarrow> jsval \<Rightarrow> 'w state \<Rightarrow> jsval \<times> 'w state" where
  "unknownToResultError S error s = (case unknownToError S error s of (e, s') \<Rightarrow> err e s')"

definition asyncUnwrap :: "stringifier \<Rightarrow> jsval \<Rightarrow> 'w state \<Rightarrow> (jsval \<times> 'w state) option" where
  "asyncUnwrap S result s =
     async result
       (\<lambda>unwrapped s'.
          if truthy (field unwrapped ''ok'') then (Inr (field unwrapped ''value''), s')
          else if instanceofError (field unwrapped ''error'')
          then (Inl (field unwrapped ''error''), s')
          else (case unknownToError S (field unwrapped ''error'') s' of (e, s'') \<Rightarrow> (Inl e, s'')))
       s"

record 'w asyncMapMethods =
  am_err :: "'w callback \<Rightarrow> 'w state \<Rightarrow> (jsval \<times> 'w state) option"
  am_ok :: "'w callback \<Rightarrow> 'w state \<Rightarrow> (jsval \<times> 'w state) option"
  am_okAndErr :: "'w callback \<Rightarrow> 'w callback \<Rightarrow> 'w state \<Rightarrow> (jsval \<times> 'w state) option"

definition asyncMap :: "jsval \<Rightarrow> 'w asyncMapMethods" where
  "asyncMap resultPromise =
     \<lparr> am_err = (\<lambda>mapFn. async resultPromise
         (\<lambda>result s'.
            if truthy (field result ''ok'') then returned (ok (field result ''value'') s')
            else andThen (runCallback mapFn (field result ''error'') s')
                   (\<lambda>e s''. returned (err e s'')))),
       am_ok = (\<lambda>mapFn. async resultPromise
         (\<lambda>result s'.
            if truthy (field result ''ok'')
            then andThen (runCallback mapFn (field result ''value'') s')
                   (\<lambda>v s''. returned (ok v s''))
            else returned (err (field result ''error'') s'))),
       am_okAndErr = (\<lambda>mapFn mapErrFn. async resultPromise
         (\<lambda>result s'.
            if truthy (field result ''ok'')
            then andThen (runCallback mapFn (field result ''value'') s')
                   (\<lambda>v s''. returned (ok v s''))
            else andThen (runCallback mapErrFn (field result ''error'') s')
                   (\<lambda>e s''. returned (err e s'')))) \<rparr>"

text \<open>\<^verbatim>\<open>err({ id })\<close>: the object literal is allocated first.\<close>

definition errId :: "string \<Rightarrow> 'w state \<Rightarrow> jsval \<times> 'w state" where
  "errId ident s =
     err (Obj (nextAddr s) [(''id'', Str ident)]) (s\<lparr>nextAddr := Suc (nextAddr s)\<rparr>)"

record 'w typedResultFields =
  tr_ok :: "jsval \<Rightarrow> 'w state \<Rightarrow> jsval \<times> 'w state"
  tr_err :: "jsval \<Rightarrow> 'w state \<Rightarrow> jsval \<times> 'w state"
  tr_type :: "'w state \<Rightarrow> 'w outcome"

text \<open>\<open>tr_type\<close> is the getter of \<^verbatim>\<open>_type\<close>.\<close>

definition typedResult :: "'w typedResultFields" where
  "typedResult =
     \<lparr> tr_ok = ok,
       tr_err = err,
       tr_type = (\<lambda>s. case newError ''usage as value is not allowed'' None s of
                         (e, s') \<Rightarrow> (Inl e, s')) \<rparr>"

definition getOkErr :: "unit \<Rightarrow> 'w typedResultFields" where
  "getOkErr u = typedResult"

record 'w resultNamespace =
  ns_ok :: "jsval \<Rightarrow> 'w state \<Rightarrow> jsval \<times> 'w state"
  ns_err :: "jsval \<Rightarrow> 'w state \<Rightarrow> jsval \<times> 'w state"
  ns_unknownToError :: "jsval \<Rightarrow> 'w state \<Rightarrow> jsval \<times> 'w state"
  ns_asyncUnwrap :: "jsval \<Rightarrow> 'w state \<Rightarrow> (jsval \<times> 'w state) option"
  ns_asyncMap :: "jsval \<Rightarrow> 'w asyncMapMethods"
  ns_getOkErr :: "unit \<Rightarrow> 'w typedResultFields"
  ns_errId :: "string \<Rightarrow> 'w state \<Rightarrow> jsval \<times> 'w state"

definition Result :: "stringifier \<Rightarrow> 'w resultNamespace" where
  "Result S =
     \<lparr> ns_ok = ok,
       ns_err = err,
       ns_unknownToError = unknownToResultError S,
       ns_asyncUnwrap = asyncUnwrap S,
       ns_asyncMap = asyncMap,
       ns_getOkErr = getOkErr,
       ns_errId = errId \<rparr>"

subsection \<open>Adapters\<close>

text \<open>The expression
  \<^verbatim>\<open>err(errorNormalizer ? errorNormalizer(error) : unknownToError(error))\<close>, which
  \<^verbatim>\<open>resultify\<close> writes out three times.\<close>

definition normalizeToErr ::
  "stringifier \<Rightarrow> 'w callback option \<Rightarrow> jsval \<Rightarrow> 'w state \<Rightarrow> 'w outcome" where
  "normalizeToErr S errorNormalizer error s =
     (case errorNormalizer of
        Some n \<Rightarrow> andThen (runCallback n error s) (\<lambda>e s'. returned (err e s'))
      | None \<Rightarrow> (case unknownToError S error s of (e, s') \<Rightarrow> returned (err e s')))"

text \<open>
  \<^verbatim>\<open>p.then((value) => ok(value)).catch((error) => err(...))\<close> on a native promise:
  \<^verbatim>\<open>then\<close> and \<^verbatim>\<open>catch\<close> allocate one promise each, and the second one is the
  value of the expression. Neither handler returns a deferred value.
\<close>

definition thenOkCatchErr ::
  "stringifier \<Rightarrow> jsval \<Rightarrow> 'w callback option \<Rightarrow> 'w state \<Rightarrow> (jsval \<times> 'w state) option" where
  "thenOkCatchErr S p errorNormalizer s =
     (let a = Suc (nextAddr s); s0 = s\<lparr>nextAddr := Suc a\<rparr> in
      case p of
        PromiseObj pa st \<Rightarrow>
          (case st of
             Pending \<Rightarrow> Some (PromiseObj a Pending, s0)
           | Fulfilled v \<Rightarrow> (case ok v s0 of (r, s1) \<Rightarrow> Some (PromiseObj a (Fulfilled r), s1))
           | Rejected error \<Rightarrow>
               (case normalizeToErr S errorNormalizer error s0 of
                  (Inr r, s1) \<Rightarrow> Some (PromiseObj a (Fulfilled r), s1)
                | (Inl x, s1) \<Rightarrow> Some (PromiseObj a (Rejected x), s1)))
      | _ \<Rightarrow> None)"

text \<open>The first argument of \<^verbatim>\<open>resultify\<close> is a function (\<^verbatim>\<open>isFunction(fn)\<close>) or a
  deferred value.\<close>

datatype 'w resultifyArg =
    FnArg "'w thunk"
  | PromiseArg jsval

definition resultify ::
  "stringifier \<Rightarrow> 'w resultifyArg \<Rightarrow> 'w callback option \<Rightarrow> 'w state \<Rightarrow> 'w outcome option" where
  "resultify S fn errorNormalizer s =
     (case fn of
        PromiseArg p \<Rightarrow> map_option returned (thenOkCatchErr S p errorNormalizer s)
      | FnArg f \<Rightarrow>
          (case runThunk f s of
             (Inr result, s1) \<Rightarrow>
               if isPromise result
               then map_option returned (thenOkCatchErr S result errorNormalizer s1)
               else Some (returned (ok result s1))
           | (Inl error, s1) \<Rightarrow> Some (normalizeToErr S errorNormalizer error s1)))"

subsection \<open>Type guard\<close>

definition hasMethod :: "jsval \<Rightarrow> string \<Rightarrow> bool" where
  "hasMethod v method = (hasProp method v \<and> typeof (field v method) = ''function'')"

definition isResult :: "jsval \<Rightarrow> bool" where
  "isResult v =
     (typeof v = ''object'' \<and>
      v \<noteq> Null \<and>
      hasProp ''ok'' v \<and>
      typeof (field v ''ok'') = ''boolean'' \<and>
      hasProp ''error'' v \<and>
      hasMethod v ''unwrapOrNull'' \<and>
      hasMethod v ''unwrapOr'' \<and>
      hasMethod v ''unwrap'' \<and>
      hasMethod v ''mapOk'' \<and>
      hasMethod v ''mapErr'' \<and>
      hasMethod v ''mapOkAndErr'' \<and>
      hasMethod v ''onOk'' \<and>
      hasMethod v ''onErr'')"

section \<open>A part of the library that the source file does not hold\<close>

text \<open>
  Modelled from the spec: \<^verbatim>\<open>safeFn(fn, errorNormalizer?)\<close>, which \<^verbatim>\<open>main.ts\<close> does
  not define. The spec: a new function with the parameter list of \<^verbatim>\<open>fn\<close>; internally
  it is \<^verbatim>\<open>resultify\<close> applied to the call of \<^verbatim>\<open>fn\<close> performed now, with the
  original arguments forwarded. The parameter list is the type \<open>'a\<close>.
\<close>

definition safeFn ::
  "stringifier \<Rightarrow> ('a \<Rightarrow> 'w thunk) \<Rightarrow> 'w callback option \<Rightarrow> 'a \<Rightarrow> 'w state \<Rightarrow> 'w outcome option" where
  "safeFn S fn errorNormalizer = (\<lambda>args. resultify S (FnArg (fn args)) errorNormalizer)"

section \<open>The type guard as the specification words it\<close>

text \<open>
  The spec's reading of \<^verbatim>\<open>isResult\<close>: the value is a non-null object, has a boolean
  \<^verbatim>\<open>ok\<close> field, has an \<^verbatim>\<open>error\<close> field with any value, and has a callable
  member for each of the eight names of the shared method set.
\<close>

definition guardedMethods :: "string list" where
  "guardedMethods =
     [''unwrapOrNull'', ''unwrapOr'', ''unwrap'', ''mapOk'', ''mapErr'', ''mapOkAndErr'',
      ''onOk'', ''onErr'']"

definition nonNullObject :: "jsval \<Rightarrow> bool" where
  "nonNullObject v = (typeof v = ''object'' \<and> v \<noteq> Null)"

fun isBoolean :: "jsval option \<Rightarrow> bool" where
  "isBoolean (Some (Bool b)) = True"
| "isBoolean v = False"

definition specIsResult :: "jsval \<Rightarrow> bool" where
  "specIsResult v =
     (nonNullObject v \<and> isBoolean (getProp v ''ok'') \<and> getProp v ''error'' \<noteq> None \<and>
      list_all (\<lambda>m. callable (getProp v m)) guardedMethods)"

section \<open>A stringifier to compute with\<close>

text \<open>
  Modelled from the spec: \<^verbatim>\<open>safeStringify\<close>, for the values of the model that have no
  \<^verbatim>\<open>toJSON\<close> member: the JSON text of the value, and nothing for \<^verbatim>\<open>undefined\<close>
  and for functions. Native errors and promises have no enumerable member. The theorems
  below hold for every stringifier; this one is the instance at which they are evaluated.
\<close>

definition digitChar :: "nat \<Rightarrow> char" where
  "digitChar n = ''0123456789abcdef'' ! n"

function natText :: "nat \<Rightarrow> string" where
  "natText n = (if n < 10 then [digitChar n] else natText (n div 10) @ [digitChar (n mod 10)])"
  by pat_completeness auto
termination
  by (relation "measure id") auto

declare natText.simps [simp del]

definition intText :: "int \<Rightarrow> string" where
  "intText i = (if i < 0 then CHR ''-'' # natText (nat (- i)) else natText (nat i))"

definition escapeChar :: "char \<Rightarrow> string" where
  "escapeChar c =
     (if c = CHR 0x22 then [CHR 0x5C, CHR 0x22]
      else if c = CHR 0x5C then [CHR 0x5C, CHR 0x5C]
      else if c = CHR 0x08 then [CHR 0x5C, CHR ''b'']
      else if c = CHR 0x09 then [CHR 0x5C, CHR ''t'']
      else if c = CHR 0x0A then [CHR 0x5C, CHR ''n'']
      else if c = CHR 0x0C then [CHR 0x5C, CHR ''f'']
      else if c = CHR 0x0D then [CHR 0x5C, CHR ''r'']
      else if of_char c < (32 :: nat)
      then [CHR 0x5C, CHR ''u'', CHR ''0'', CHR ''0'',
            digitChar (of_char c div 16), digitChar (of_char c mod 16)]
      else [c])"

definition quoted :: "string \<Rightarrow> string" where
  "quoted t = CHR 0x22 # concat (map escapeChar t) @ [CHR 0x22]"

fun commaJoin :: "string list \<Rightarrow> string" where
  "commaJoin [] = []"
| "commaJoin [t] = t"
| "commaJoin (t # ts) = t @ '','' @ commaJoin ts"

fun jsonText :: "jsval \<Rightarrow> string option"
  and jsonElems :: "jsval list \<Rightarrow> string list"
  and jsonMembers :: "(string \<times> jsval) list \<Rightarrow> string list" where
  "jsonText Undefined = None"
| "jsonText Null = Some ''null''"
| "jsonText (Bool b) = Some (if b then ''true'' else ''false'')"
| "jsonText (Num n) = Some (intText n)"
| "jsonText (Str t) = Some (quoted t)"
| "jsonText (ErrorObj a m c) = Some ''{}''"
| "jsonText (Obj a ps) = Some (''{'' @ commaJoin (jsonMembers ps) @ ''}'')"
| "jsonText (Arr a xs) = Some (''['' @ commaJoin (jsonElems xs) @ '']'')"
| "jsonText (Fun f) = None"
| "jsonText (PromiseObj a st) = Some ''{}''"
| "jsonElems [] = []"
| "jsonElems (x # xs) = (case jsonText x of None \<Rightarrow> ''null'' | Some t \<Rightarrow> t) # jsonElems xs"
| "jsonMembers [] = []"
| "jsonMembers ((k, v) # ps) =
     (case jsonText v of
        None \<Rightarrow> jsonMembers ps
      | Some t \<Rightarrow> (quoted k @ '':'' @ t) # jsonMembers ps)"

section \<open>Observing a Result\<close>

text \<open>
  What a caller can tell of a Result, apart from which object it is: the branch, the value
  and the error. \<open>observed\<close> is what can be told of the outcome of a call: the value
  thrown or the returned Result so observed, and the caller's world. \<open>thenInvoke\<close>
  chains a second method call on the Result a first call returned;
  \<open>identity\<close> is \<^verbatim>\<open>(x) => x\<close> and \<open>composed f g\<close> is
  \<^verbatim>\<open>(x) => g(f(x))\<close>.
\<close>

definition observe :: "jsval \<Rightarrow> jsval \<times> jsval \<times> jsval" where
  "observe r = (field r ''ok'', field r ''value'', field r ''error'')"

definition observed :: "'w outcome option \<Rightarrow> ((jsval + jsval \<times> jsval \<times> jsval) \<times> 'w) option" where
  "observed out = map_option (\<lambda>(res, s). (map_sum id observe res, world s)) out"

definition thenInvoke ::
  "'w outcome option \<Rightarrow> (jsval \<Rightarrow> 'w state \<Rightarrow> 'w outcome option) \<Rightarrow> 'w outcome option" where
  "thenInvoke out k =
     (case out of
        None \<Rightarrow> None
      | Some (Inl e, s) \<Rightarrow> Some (Inl e, s)
      | Some (Inr r, s) \<Rightarrow> k r s)"

definition identity :: "'w callback" where
  "identity = (\<lambda>x w. (Inr x, w))"

definition composed :: "'w callback \<Rightarrow> 'w callback \<Rightarrow> 'w callback" where
  "composed f g = (\<lambda>x w. case f x w of (Inl e, w') \<Rightarrow> (Inl e, w') | (Inr y, w') \<Rightarrow> g y w')"

section \<open>Properties\<close>

subsection \<open>Reading what the constructors wrote\<close>

lemma members_ok:
  "members (fst (ok v s)) =
     [(''ok'', Bool True), (''error'', Bool False), (''value'', v)] @ okMethods"
  by (simp add: ok_def)

lemma members_err:
  "members (fst (err e s)) =
     [(''ok'', Bool False), (''error'', e), (''errorResult'', Fun (ErrorResult e))]
     @ errMethods e"
  by (simp add: err_def)

subsection \<open>The constructors\<close>

text \<open>
  Claim C1. For every value \<open>v\<close>, \<^verbatim>\<open>ok(v)\<close> is an Ok result: its \<^verbatim>\<open>ok\<close> field is
  \<^verbatim>\<open>true\<close>, its \<^verbatim>\<open>error\<close> field is \<^verbatim>\<open>false\<close>, its \<^verbatim>\<open>value\<close> field is
  \<open>v\<close> itself, and \<^verbatim>\<open>unwrapOrNull()\<close>, \<^verbatim>\<open>unwrap()\<close> and \<^verbatim>\<open>unwrapOr(d)\<close>, for
  any default \<open>d\<close>, all return \<open>v\<close> and leave the state as it is.
\<close>

theorem ok_constructs_Ok:
  fixes s :: "'w state"
  shows "getProp (fst (ok v s)) ''ok'' = Some (Bool True)
     \<and> getProp (fst (ok v s)) ''error'' = Some (Bool False)
     \<and> getProp (fst (ok v s)) ''value'' = Some v
     \<and> invoke S (fst (ok v s)) ''unwrapOrNull'' [] (snd (ok v s)) = Some (Inr v, snd (ok v s))
     \<and> invoke S (fst (ok v s)) ''unwrap'' [] (snd (ok v s)) = Some (Inr v, snd (ok v s))
     \<and> invoke S (fst (ok v s)) ''unwrapOr'' [Val d] (snd (ok v s)) = Some (Inr v, snd (ok v s))"
  by (simp add: invoke_def getProp_def members_ok okMethods_def okUnwrapOr_def field_def)

theorem ok_constructs_Ok_witness:
  "getProp (fst (ok (Num 5) \<lparr>nextAddr = 0, world = ()\<rparr>)) ''value'' = Some (Num 5)
   \<and> invoke jsonText (fst (ok (Num 5) \<lparr>nextAddr = 0, world = ()\<rparr>)) ''unwrapOr'' [Val (Num 0)]
        \<lparr>nextAddr = 1, world = ()\<rparr> = Some (Inr (Num 5), \<lparr>nextAddr = 1, world = ()\<rparr>)"
  using ok_constructs_Ok [of "Num 5" "\<lparr>nextAddr = 0, world = ()\<rparr>" jsonText "Num 0"]
  by (simp add: ok_def)

text \<open>
  Claim C2. For every error payload \<open>e\<close> (the error constraint is not needed),
  \<^verbatim>\<open>err(e)\<close> has \<^verbatim>\<open>ok\<close> \<^verbatim>\<open>false\<close> and \<^verbatim>\<open>error\<close> \<open>e\<close> itself, with the
  address it came with; \<^verbatim>\<open>unwrapOrNull()\<close> returns \<^verbatim>\<open>null\<close>, \<^verbatim>\<open>unwrapOr(d)\<close>
  returns \<open>d\<close>, and \<^verbatim>\<open>unwrap()\<close> throws: \<open>e\<close> itself when it is a native error
  instance, and otherwise the error that \<^verbatim>\<open>unknownToError(e)\<close> makes of it.
\<close>

theorem err_constructs_Err:
  fixes s :: "'w state"
  shows "getProp (fst (err e s)) ''ok'' = Some (Bool False)
     \<and> getProp (fst (err e s)) ''error'' = Some e
     \<and> invoke S (fst (err e s)) ''unwrapOrNull'' [] (snd (err e s)) = Some (Inr Null, snd (err e s))
     \<and> invoke S (fst (err e s)) ''unwrapOr'' [Val d] (snd (err e s)) = Some (Inr d, snd (err e s))
     \<and> invoke S (fst (err e s)) ''unwrap'' [] (snd (err e s)) =
         Some (if instanceofError e then (Inl e, snd (err e s))
               else (Inl (fst (unknownToError S e (snd (err e s)))),
                     snd (unknownToError S e (snd (err e s)))))"
  by (simp add: invoke_def getProp_def members_err errMethods_def errUnwrap_def
      errUnwrapOr_def errUnwrapOrNull_def split: prod.splits)

theorem err_constructs_Err_witness:
  "invoke jsonText (fst (err (ErrorObj 3 ''boom'' None) \<lparr>nextAddr = 4, world = ()\<rparr>)) ''unwrap'' []
       \<lparr>nextAddr = 5, world = ()\<rparr>
     = Some (Inl (ErrorObj 3 ''boom'' None), \<lparr>nextAddr = 5, world = ()\<rparr>)
   \<and> invoke jsonText (fst (err (Arr 3 [Str ''string'']) \<lparr>nextAddr = 4, world = ()\<rparr>)) ''unwrap'' []
       \<lparr>nextAddr = 5, world = ()\<rparr>
     = Some (Inl (ErrorObj 5 (''['' @ quoted ''string'' @ '']'') (Some (Arr 3 [Str ''string'']))),
             \<lparr>nextAddr = 6, world = ()\<rparr>)"
  using err_constructs_Err [of "ErrorObj 3 ''boom'' None" "\<lparr>nextAddr = 4, world = ()\<rparr>" jsonText]
    err_constructs_Err [of "Arr 3 [Str ''string'']" "\<lparr>nextAddr = 4, world = ()\<rparr>" jsonText]
  by (simp add: err_def unknownToError_def isObject_def newError_def)

subsection \<open>The type guard\<close>

lemma typeof_function: "(typeof x = ''function'') = (\<exists>f. x = Fun f)"
  by (cases x) simp_all

lemma hasMethod_callable: "hasMethod v m = callable (getProp v m)"
proof (cases "getProp v m")
  case None
  then show ?thesis by (simp add: hasMethod_def hasProp_def)
next
  case (Some x)
  then show ?thesis
    by (cases x) (simp_all add: hasMethod_def hasProp_def field_def)
qed

lemma boolean_ok_field:
  "(hasProp ''ok'' v \<and> typeof (field v ''ok'') = ''boolean'') = isBoolean (getProp v ''ok'')"
proof (cases "getProp v ''ok''")
  case None
  then show ?thesis by (simp add: hasProp_def)
next
  case (Some x)
  then show ?thesis
    by (cases x) (simp_all add: hasProp_def field_def)
qed

lemma isResult_eq_spec: "isResult v = specIsResult v"
  using boolean_ok_field [of v]
  by (auto simp add: isResult_def specIsResult_def nonNullObject_def guardedMethods_def
      hasMethod_callable hasProp_def)

lemma isResult_ok: "isResult (fst (ok v s))"
  by (simp add: isResult_eq_spec specIsResult_def nonNullObject_def guardedMethods_def
      getProp_def members_ok okMethods_def) (simp add: ok_def)

lemma isResult_err: "isResult (fst (err e s))"
  by (simp add: isResult_eq_spec specIsResult_def nonNullObject_def guardedMethods_def
      getProp_def members_err errMethods_def) (simp add: err_def)

text \<open>
  Claim C7. \<^verbatim>\<open>isResult(value)\<close> is true exactly when the value is a non-null object
  with a boolean \<^verbatim>\<open>ok\<close> field, an \<^verbatim>\<open>error\<close> field of any value and callable
  members named \<^verbatim>\<open>unwrapOrNull\<close>, \<^verbatim>\<open>unwrapOr\<close>, \<^verbatim>\<open>unwrap\<close>, \<^verbatim>\<open>mapOk\<close>,
  \<^verbatim>\<open>mapErr\<close>, \<^verbatim>\<open>mapOkAndErr\<close>, \<^verbatim>\<open>onOk\<close> and \<^verbatim>\<open>onErr\<close>. It is true of
  \<^verbatim>\<open>ok(1)\<close> and of \<^verbatim>\<open>err(new Error('x'))\<close>, and false of
  \<^verbatim>\<open>{ ok: true, value: 1 }\<close>, of \<^verbatim>\<open>null\<close> and of \<^verbatim>\<open>1\<close>.
\<close>

theorem isResult_structural:
  fixes s :: "'w state"
  shows "isResult v = specIsResult v
     \<and> isResult (fst (ok (Num 1) s))
     \<and> isResult (fst (err (ErrorObj a ''x'' None) s))
     \<and> \<not> isResult (Obj b [(''ok'', Bool True), (''value'', Num 1)])
     \<and> \<not> isResult Null
     \<and> \<not> isResult (Num 1)"
proof -
  have "\<not> isResult (Obj b [(''ok'', Bool True), (''value'', Num 1)])"
    by (simp add: isResult_def hasProp_def getProp_def)
  moreover have "\<not> isResult Null" and "\<not> isResult (Num 1)"
    by (simp_all add: isResult_def)
  ultimately show ?thesis
    using isResult_eq_spec [of v] isResult_ok [of "Num 1" s]
      isResult_err [of "ErrorObj a ''x'' None" s]
    by blast
qed

theorem isResult_structural_witness:
  "isResult (Obj 0 [(''ok'', Bool False), (''error'', Undefined),
      (''unwrapOrNull'', Fun (Foreign 0)), (''unwrapOr'', Fun (Foreign 1)),
      (''unwrap'', Fun (Foreign 2)), (''mapOk'', Fun (Foreign 3)), (''mapErr'', Fun (Foreign 4)),
      (''mapOkAndErr'', Fun (Foreign 5)), (''onOk'', Fun (Foreign 6)), (''onErr'', Fun (Foreign 7))])
   \<and> \<not> isResult (Obj 0 [(''ok'', Num 1), (''error'', Undefined),
      (''unwrapOrNull'', Fun (Foreign 0)), (''unwrapOr'', Fun (Foreign 1)),
      (''unwrap'', Fun (Foreign 2)), (''mapOk'', Fun (Foreign 3)), (''mapErr'', Fun (Foreign 4)),
      (''mapOkAndErr'', Fun (Foreign 5)), (''onOk'', Fun (Foreign 6)), (''onErr'', Fun (Foreign 7))])
   \<and> \<not> isResult (Obj 0 [(''ok'', Bool False), (''error'', Undefined),
      (''unwrapOrNull'', Fun (Foreign 0)), (''unwrapOr'', Fun (Foreign 1)),
      (''unwrap'', Fun (Foreign 2)), (''mapOk'', Fun (Foreign 3)), (''mapErr'', Fun (Foreign 4)),
      (''mapOkAndErr'', Fun (Foreign 5)), (''onOk'', Fun (Foreign 6)), (''onErr'', Str ''no'')])
   \<and> isResult (fst (ok (Num 1) \<lparr>nextAddr = 0, world = ()\<rparr>))"
  using isResult_structural [of "Obj 0 [(''ok'', Bool False), (''error'', Undefined),
      (''unwrapOrNull'', Fun (Foreign 0)), (''unwrapOr'', Fun (Foreign 1)),
      (''unwrap'', Fun (Foreign 2)), (''mapOk'', Fun (Foreign 3)), (''mapErr'', Fun (Foreign 4)),
      (''mapOkAndErr'', Fun (Foreign 5)), (''onOk'', Fun (Foreign 6)), (''onErr'', Fun (Foreign 7))]"
      "\<lparr>nextAddr = 0, world = ()\<rparr>" 0 0]
    isResult_structural [of "Obj 0 [(''ok'', Num 1), (''error'', Undefined),
      (''unwrapOrNull'', Fun (Foreign 0)), (''unwrapOr'', Fun (Foreign 1)),
      (''unwrap'', Fun (Foreign 2)), (''mapOk'', Fun (Foreign 3)), (''mapErr'', Fun (Foreign 4)),
      (''mapOkAndErr'', Fun (Foreign 5)), (''onOk'', Fun (Foreign 6)), (''onErr'', Fun (Foreign 7))]"
      "\<lparr>nextAddr = 0, world = ()\<rparr>" 0 0]
    isResult_structural [of "Obj 0 [(''ok'', Bool False), (''error'', Undefined),
      (''unwrapOrNull'', Fun (Foreign 0)), (''unwrapOr'', Fun (Foreign 1)),
      (''unwrap'', Fun (Foreign 2)), (''mapOk'', Fun (Foreign 3)), (''mapErr'', Fun (Foreign 4)),
      (''mapOkAndErr'', Fun (Foreign 5)), (''onOk'', Fun (Foreign 6)), (''onErr'', Str ''no'')]"
      "\<lparr>nextAddr = 0, world = ()\<rparr>" 0 0]
  by (simp add: specIsResult_def nonNullObject_def getProp_def guardedMethods_def)

subsection \<open>The error normalizer\<close>

lemma unknownToError_native: "instanceofError (fst (unknownToError S v s))"
  by (simp add: unknownToError_def newError_def)

text \<open>
  Claim C4, as amended. For every mapping-like object that is not a native error
  instance, \<^verbatim>\<open>unknownToError\<close> returns a new native error, allocated at the next free
  address. Its message is the object's \<^verbatim>\<open>message\<close> field when that field is a string
  that is not empty; in every other case it is the text the stringifier gives for the
  object, or \<^verbatim>\<open>unknown\<close> when the stringifier gives none. In all cases the cause is
  the object itself.
\<close>

theorem unknownToError_object:
  fixes s :: "'w state"
  assumes "isObject v" and "\<not> instanceofError v"
  shows "unknownToError S v s =
     (ErrorObj (nextAddr s)
        (case getProp v ''message'' of
           Some (Str m) \<Rightarrow>
             if m \<noteq> [] then m else (case S v of Some t \<Rightarrow> t | None \<Rightarrow> ''unknown'')
         | _ \<Rightarrow> (case S v of Some t \<Rightarrow> t | None \<Rightarrow> ''unknown''))
        (Some v),
      s\<lparr>nextAddr := Suc (nextAddr s)\<rparr>)"
proof -
  from assms(1) have obj: "typeof v = ''object''"
    by (simp add: isObject_def)
  show ?thesis
  proof (cases "getProp v ''message''")
    case None
    with assms obj show ?thesis
      by (simp add: unknownToError_def newError_def hasProp_def)
  next
    case (Some x)
    with assms obj show ?thesis
      by (cases x) (simp_all add: unknownToError_def newError_def hasProp_def field_def)
  qed
qed

theorem unknownToError_object_witness:
  "unknownToError jsonText (Obj 0 [(''message'', Str ''m''), (''x'', Num 1)]) \<lparr>nextAddr = 1, world = ()\<rparr>
     = (ErrorObj 1 ''m'' (Some (Obj 0 [(''message'', Str ''m''), (''x'', Num 1)])),
        \<lparr>nextAddr = 2, world = ()\<rparr>)
   \<and> unknownToError (\<lambda>v. None) (Obj 0 [(''message'', Num 3)]) \<lparr>nextAddr = 1, world = ()\<rparr>
     = (ErrorObj 1 ''unknown'' (Some (Obj 0 [(''message'', Num 3)])), \<lparr>nextAddr = 2, world = ()\<rparr>)
   \<and> unknownToError jsonText (Obj 0 [(''id'', Num 42)]) \<lparr>nextAddr = 1, world = ()\<rparr>
     = (ErrorObj 1 (''{'' @ quoted ''id'' @ '':42}'') (Some (Obj 0 [(''id'', Num 42)])),
        \<lparr>nextAddr = 2, world = ()\<rparr>)"
  using unknownToError_object [of "Obj 0 [(''message'', Str ''m''), (''x'', Num 1)]" jsonText
      "\<lparr>nextAddr = 1, world = ()\<rparr>"]
    unknownToError_object [of "Obj 0 [(''message'', Num 3)]" "\<lambda>v. None"
      "\<lparr>nextAddr = 1, world = ()\<rparr>"]
    unknownToError_object [of "Obj 0 [(''id'', Num 42)]" jsonText "\<lparr>nextAddr = 1, world = ()\<rparr>"]
  by (simp add: isObject_def getProp_def intText_def natText.simps digitChar_def)

text \<open>
  The claim as the spec states it asks for the \<^verbatim>\<open>message\<close> field whenever that field
  is a string. The source also tests the field for truthiness
  (\<^verbatim>\<open>error.message && typeof error.message === 'string'\<close>), so the empty string is
  passed over: for \<^verbatim>\<open>{ message: '' }\<close> the message is the JSON text of the object.
\<close>

theorem unknownToError_empty_message_counterexample:
  "isObject (Obj 0 [(''message'', Str '''')])
   \<and> \<not> instanceofError (Obj 0 [(''message'', Str '''')])
   \<and> getProp (Obj 0 [(''message'', Str '''')]) ''message'' = Some (Str '''')
   \<and> fst (unknownToError jsonText (Obj 0 [(''message'', Str '''')]) \<lparr>nextAddr = 1, world = ()\<rparr>)
     = ErrorObj 1 (''{'' @ quoted ''message'' @ '':'' @ quoted '''' @ ''}'')
         (Some (Obj 0 [(''message'', Str '''')]))
   \<and> getProp (fst (unknownToError jsonText (Obj 0 [(''message'', Str '''')])
         \<lparr>nextAddr = 1, world = ()\<rparr>)) ''message'' \<noteq> Some (Str '''')"
  by (simp add: isObject_def getProp_def unknownToError_def hasProp_def field_def newError_def
      quoted_def)

subsection \<open>The namespace\<close>

text \<open>
  Claim C10, as amended. The namespace \<^verbatim>\<open>Result\<close> holds \<^verbatim>\<open>ok\<close>, \<^verbatim>\<open>err\<close>,
  \<^verbatim>\<open>asyncUnwrap\<close>, \<^verbatim>\<open>asyncMap\<close>, \<^verbatim>\<open>getOkErr\<close> and \<^verbatim>\<open>errId\<close> unchanged. Its
  member \<^verbatim>\<open>unknownToError\<close> is \<^verbatim>\<open>unknownToResultError\<close>: for every value \<open>v\<close>,
  \<^verbatim>\<open>Result.unknownToError(v)\<close> is \<^verbatim>\<open>err(unknownToError(v))\<close>, an Err result whose
  \<^verbatim>\<open>error\<close> is the native error that the standalone \<^verbatim>\<open>unknownToError(v)\<close> returns.
\<close>

theorem Result_facade:
  fixes s :: "'w state"
  shows "ns_ok (Result S) = (ok :: jsval \<Rightarrow> 'w state \<Rightarrow> jsval \<times> 'w state)
     \<and> ns_err (Result S) = (err :: jsval \<Rightarrow> 'w state \<Rightarrow> jsval \<times> 'w state)
     \<and> ns_asyncUnwrap (Result S) = (asyncUnwrap S :: jsval \<Rightarrow> 'w state \<Rightarrow> (jsval \<times> 'w state) option)
     \<and> ns_asyncMap (Result S) = (asyncMap :: jsval \<Rightarrow> 'w asyncMapMethods)
     \<and> ns_getOkErr (Result S) = (getOkErr :: unit \<Rightarrow> 'w typedResultFields)
     \<and> ns_errId (Result S) = (errId :: string \<Rightarrow> 'w state \<Rightarrow> jsval \<times> 'w state)
     \<and> ns_unknownToError (Result S) v s
         = err (fst (unknownToError S v s)) (snd (unknownToError S v s))
     \<and> instanceofError (fst (unknownToError S v s))
     \<and> getProp (fst (ns_unknownToError (Result S) v s)) ''ok'' = Some (Bool False)
     \<and> getProp (fst (ns_unknownToError (Result S) v s)) ''error''
         = Some (fst (unknownToError S v s))"
  by (simp add: Result_def unknownToResultError_def unknownToError_native getProp_def
      members_err split: prod.splits)

theorem Result_facade_witness:
  "ns_unknownToError (Result jsonText) (Str ''boom'') \<lparr>nextAddr = 0, world = ()\<rparr>
     = err (ErrorObj 0 ''boom'' None) \<lparr>nextAddr = 1, world = ()\<rparr>"
  using Result_facade [of jsonText "Str ''boom''" "\<lparr>nextAddr = 0, world = ()\<rparr>"]
  by (simp add: unknownToError_def newError_def)

text \<open>
  As the spec states it, \<^verbatim>\<open>Result.unknownToError(v)\<close> would return what
  \<^verbatim>\<open>unknownToError(v)\<close> returns, a native error. For \<^verbatim>\<open>'boom'\<close> the standalone
  function returns an error and the namespace member returns an Err result around it.
\<close>

theorem Result_unknownToError_counterexample:
  "fst (unknownToError jsonText (Str ''boom'') \<lparr>nextAddr = 0, world = ()\<rparr>)
     = ErrorObj 0 ''boom'' None
   \<and> fst (ns_unknownToError (Result jsonText) (Str ''boom'') \<lparr>nextAddr = 0, world = ()\<rparr>)
     = Obj 1 ([(''ok'', Bool False), (''error'', ErrorObj 0 ''boom'' None),
               (''errorResult'', Fun (ErrorResult (ErrorObj 0 ''boom'' None)))]
              @ errMethods (ErrorObj 0 ''boom'' None))
   \<and> \<not> instanceofError
        (fst (ns_unknownToError (Result jsonText) (Str ''boom'') \<lparr>nextAddr = 0, world = ()\<rparr>))
   \<and> ns_unknownToError (Result jsonText) (Str ''boom'') \<lparr>nextAddr = 0, world = ()\<rparr>
     \<noteq> unknownToError jsonText (Str ''boom'') \<lparr>nextAddr = 0, world = ()\<rparr>"
  by (simp add: Result_def unknownToResultError_def unknownToError_def newError_def err_def)

subsection \<open>The adapters\<close>

lemma notPromise_ok: "\<not> isPromise (fst (ok v s))"
  by (simp add: isPromise_def getProp_def members_ok okMethods_def) (simp add: ok_def)

lemma notPromise_err: "\<not> isPromise (fst (err e s))"
  by (simp add: isPromise_def getProp_def members_err errMethods_def) (simp add: err_def)

lemma unknownToError_of_native: "instanceofError x \<Longrightarrow> unknownToError S x s = (x, s)"
  by (simp add: unknownToError_def)

text \<open>
  Claim C3. \<^verbatim>\<open>resultify\<close> applied to a function calls it at once and, when the call
  does not return a deferred value, answers synchronously with a Result that is not
  itself deferred: \<^verbatim>\<open>ok(returnValue)\<close> when the function returns; when it throws
  \<open>x\<close> and no normalizer was given, \<^verbatim>\<open>err(unknownToError(x))\<close>, which is
  \<^verbatim>\<open>err(x)\<close> with \<open>x\<close> itself when \<open>x\<close> is a native error instance; and when a
  normalizer was given and returns \<open>e\<close> for \<open>x\<close>, \<^verbatim>\<open>err(e)\<close>.
\<close>

theorem resultify_sync:
  fixes s :: "'w state" and f :: "'w thunk"
  shows
    "(f (world s) = (Inr v, w1) \<and> \<not> isPromise v \<longrightarrow>
        resultify S (FnArg f) N s = Some (returned (ok v (s\<lparr>world := w1\<rparr>))))
   \<and> (f (world s) = (Inl x, w1) \<longrightarrow>
        resultify S (FnArg f) None s =
          Some (returned (err (fst (unknownToError S x (s\<lparr>world := w1\<rparr>)))
                              (snd (unknownToError S x (s\<lparr>world := w1\<rparr>))))))
   \<and> (f (world s) = (Inl x, w1) \<and> instanceofError x \<longrightarrow>
        resultify S (FnArg f) None s = Some (returned (err x (s\<lparr>world := w1\<rparr>))))
   \<and> (f (world s) = (Inl x, w1) \<and> n x w1 = (Inr e, w2) \<longrightarrow>
        resultify S (FnArg f) (Some n) s = Some (returned (err e (s\<lparr>world := w2\<rparr>))))
   \<and> \<not> isPromise (fst (ok v (s\<lparr>world := w1\<rparr>)))
   \<and> \<not> isPromise (fst (err e (s\<lparr>world := w2\<rparr>)))"
proof -
  have a: "f (world s) = (Inr v, w1) \<and> \<not> isPromise v \<longrightarrow>
        resultify S (FnArg f) N s = Some (returned (ok v (s\<lparr>world := w1\<rparr>)))"
    by (simp add: resultify_def runThunk_def)
  have b: "f (world s) = (Inl x, w1) \<longrightarrow>
        resultify S (FnArg f) None s =
          Some (returned (err (fst (unknownToError S x (s\<lparr>world := w1\<rparr>)))
                              (snd (unknownToError S x (s\<lparr>world := w1\<rparr>)))))"
    by (simp add: resultify_def runThunk_def normalizeToErr_def split: prod.splits)
  have c: "f (world s) = (Inl x, w1) \<and> instanceofError x \<longrightarrow>
        resultify S (FnArg f) None s = Some (returned (err x (s\<lparr>world := w1\<rparr>)))"
    by (simp add: resultify_def runThunk_def normalizeToErr_def unknownToError_of_native)
  have d: "f (world s) = (Inl x, w1) \<and> n x w1 = (Inr e, w2) \<longrightarrow>
        resultify S (FnArg f) (Some n) s = Some (returned (err e (s\<lparr>world := w2\<rparr>)))"
    by (simp add: resultify_def runThunk_def normalizeToErr_def runCallback_def andThen_def)
  from a b c d show ?thesis
    using notPromise_ok [of v "s\<lparr>world := w1\<rparr>"] notPromise_err [of e "s\<lparr>world := w2\<rparr>"]
    by blast
qed

theorem resultify_sync_witness:
  "resultify jsonText (FnArg (\<lambda>w. (Inr (Num 5), Suc w))) None \<lparr>nextAddr = 0, world = 0\<rparr>
     = Some (Inr (fst (ok (Num 5) \<lparr>nextAddr = 0, world = 1\<rparr>)), \<lparr>nextAddr = 1, world = 1\<rparr>)
   \<and> resultify jsonText (FnArg (\<lambda>w. (Inl (Str ''x''), Suc w))) None \<lparr>nextAddr = 0, world = 0\<rparr>
     = Some (Inr (fst (err (ErrorObj 0 ''x'' None) \<lparr>nextAddr = 1, world = 1\<rparr>)),
             \<lparr>nextAddr = 2, world = 1\<rparr>)
   \<and> resultify jsonText (FnArg (\<lambda>w. (Inl (ErrorObj 7 ''e'' None), Suc w))) None
        \<lparr>nextAddr = 0, world = 0\<rparr>
     = Some (Inr (fst (err (ErrorObj 7 ''e'' None) \<lparr>nextAddr = 0, world = 1\<rparr>)),
             \<lparr>nextAddr = 1, world = 1\<rparr>)
   \<and> resultify jsonText (FnArg (\<lambda>w. (Inl (Str ''x''), Suc w)))
        (Some (\<lambda>x w. (Inr (Arr 9 [x]), Suc w))) \<lparr>nextAddr = 0, world = 0\<rparr>
     = Some (Inr (fst (err (Arr 9 [Str ''x'']) \<lparr>nextAddr = 0, world = 2\<rparr>)),
             \<lparr>nextAddr = 1, world = 2\<rparr>)"
  using resultify_sync [of "\<lambda>w. (Inr (Num 5), Suc w)" "\<lparr>nextAddr = 0, world = 0\<rparr>" "Num 5" 1
      jsonText None]
    resultify_sync [of "\<lambda>w. (Inl (Str ''x''), Suc w)" "\<lparr>nextAddr = 0, world = 0\<rparr>" _ 1
      jsonText _ "Str ''x''" "\<lambda>x w. (Inr (Arr 9 [x]), Suc w)" "Arr 9 [Str ''x'']" 2]
    resultify_sync [of "\<lambda>w. (Inl (ErrorObj 7 ''e'' None), Suc w)" "\<lparr>nextAddr = 0, world = 0\<rparr>"
      _ 1 jsonText _ "ErrorObj 7 ''e'' None"]
  by (simp add: isPromise_def isObject_def returned_def ok_def err_def unknownToError_def
      newError_def)

subsection \<open>Mapping the value\<close>

lemma field_ok:
  "field (fst (ok v s)) ''ok'' = Bool True"
  "field (fst (ok v s)) ''value'' = v"
  "field (fst (ok v s)) ''error'' = Bool False"
  by (simp_all add: field_def getProp_def members_ok)

lemma field_err:
  "field (fst (err e s)) ''ok'' = Bool False"
  "field (fst (err e s)) ''error'' = e"
  "field (fst (err e s)) ''value'' = Undefined"
  by (simp_all add: field_def getProp_def members_err errMethods_def)

lemma invoke_mapOk_ok:
  "invoke S (fst (ok v s)) ''mapOk'' [Cb f] t = Some (okMap (fst (ok v s)) f t)"
  by (simp add: invoke_def getProp_def members_ok okMethods_def)

lemma invoke_mapOk_err:
  "invoke S (fst (err e s)) ''mapOk'' [Cb f] t = Some (Inr (fst (err e s)), t)"
  by (simp add: invoke_def getProp_def members_err errMethods_def returnResult_def)

lemma okMap_ok:
  "okMap (fst (ok v s)) f t =
     (case f v (world t) of
        (Inl x, w') \<Rightarrow> (Inl x, t\<lparr>world := w'\<rparr>)
      | (Inr y, w') \<Rightarrow> returned (ok y (t\<lparr>world := w'\<rparr>)))"
  by (simp add: okMap_def field_ok runCallback_def andThen_def split: prod.splits sum.splits)

lemma observe_ok: "observe (fst (ok v s)) = (Bool True, v, Bool False)"
  by (simp add: observe_def field_ok)

lemma world_ok: "world (snd (ok v s)) = world s"
  by (simp add: ok_def)

text \<open>
  Claim C9. For every Result \<open>r\<close>, \<^verbatim>\<open>r.mapOk(id)\<close> with the identity function is
  observably equal to \<open>r\<close>: on Ok it has the same branch and the same value, on Err it
  is \<open>r\<close> itself. For all functions \<open>f\<close> and \<open>g\<close>, which may throw and may change the
  caller's world, \<^verbatim>\<open>r.mapOk(f).mapOk(g)\<close> and \<^verbatim>\<open>r.mapOk(x => g(f(x)))\<close> are
  observably equal; on Err both return the reference \<open>r\<close>.
\<close>

theorem mapOk_laws:
  fixes s t :: "'w state"
  shows
    "observed (invoke S (fst (ok v s)) ''mapOk'' [Cb identity] t)
       = Some (Inr (observe (fst (ok v s))), world t)
   \<and> invoke S (fst (err e s)) ''mapOk'' [Cb identity] t = Some (Inr (fst (err e s)), t)
   \<and> observed (thenInvoke (invoke S (fst (ok v s)) ''mapOk'' [Cb f] t)
                 (\<lambda>r. invoke S r ''mapOk'' [Cb g]))
       = observed (invoke S (fst (ok v s)) ''mapOk'' [Cb (composed f g)] t)
   \<and> thenInvoke (invoke S (fst (err e s)) ''mapOk'' [Cb f] t) (\<lambda>r. invoke S r ''mapOk'' [Cb g])
       = Some (Inr (fst (err e s)), t)
   \<and> invoke S (fst (err e s)) ''mapOk'' [Cb (composed f g)] t = Some (Inr (fst (err e s)), t)"
proof -
  have idem: "observed (invoke S (fst (ok v s)) ''mapOk'' [Cb identity] t)
       = Some (Inr (observe (fst (ok v s))), world t)"
    by (simp add: invoke_mapOk_ok okMap_ok identity_def observed_def returned_def observe_ok
        world_ok)
  have comp: "observed (thenInvoke (invoke S (fst (ok v s)) ''mapOk'' [Cb f] t)
                 (\<lambda>r. invoke S r ''mapOk'' [Cb g]))
       = observed (invoke S (fst (ok v s)) ''mapOk'' [Cb (composed f g)] t)"
  proof (cases "f v (world t)")
    case (Pair res w')
    show ?thesis
    proof (cases res)
      case (Inl x)
      with Pair show ?thesis
        by (simp add: invoke_mapOk_ok okMap_ok thenInvoke_def composed_def observed_def)
    next
      case (Inr y)
      show ?thesis
      proof (cases "g y w'")
        case inner: (Pair res2 w'')
        with Pair Inr show ?thesis
          by (cases res2)
             (simp_all add: invoke_mapOk_ok okMap_ok thenInvoke_def composed_def observed_def
               returned_def observe_ok world_ok)
      qed
    qed
  qed
  have errs: "thenInvoke (invoke S (fst (err e s)) ''mapOk'' [Cb f] t)
         (\<lambda>r. invoke S r ''mapOk'' [Cb g]) = Some (Inr (fst (err e s)), t)"
    by (simp add: invoke_mapOk_err thenInvoke_def)
  from idem comp errs show ?thesis
    by (simp add: invoke_mapOk_err)
qed

theorem mapOk_laws_witness:
  "observed (thenInvoke
       (invoke jsonText (fst (ok (Num 5) \<lparr>nextAddr = 0, world = 0 :: nat\<rparr>)) ''mapOk''
          [Cb (\<lambda>x w. (Inr (Arr 7 [x]), Suc w))] \<lparr>nextAddr = 1, world = 0\<rparr>)
       (\<lambda>r. invoke jsonText r ''mapOk'' [Cb (\<lambda>x w. (Inr (Str ''done''), w + 2))]))
     = Some (Inr (Bool True, Str ''done'', Bool False), 3)
   \<and> observed (invoke jsonText (fst (ok (Num 5) \<lparr>nextAddr = 0, world = 0 :: nat\<rparr>)) ''mapOk''
          [Cb (composed (\<lambda>x w. (Inr (Arr 7 [x]), Suc w)) (\<lambda>x w. (Inr (Str ''done''), w + 2)))]
          \<lparr>nextAddr = 1, world = 0\<rparr>)
     = Some (Inr (Bool True, Str ''done'', Bool False), 3)"
proof -
  have rhs: "observed (invoke jsonText (fst (ok (Num 5) \<lparr>nextAddr = 0, world = 0 :: nat\<rparr>)) ''mapOk''
          [Cb (composed (\<lambda>x w. (Inr (Arr 7 [x]), Suc w)) (\<lambda>x w. (Inr (Str ''done''), w + 2)))]
          \<lparr>nextAddr = 1, world = 0\<rparr>)
     = Some (Inr (Bool True, Str ''done'', Bool False), 3)"
    by (simp add: invoke_mapOk_ok okMap_ok composed_def observed_def returned_def observe_ok
        world_ok)
  have eq: "observed (thenInvoke
       (invoke jsonText (fst (ok (Num 5) \<lparr>nextAddr = 0, world = 0 :: nat\<rparr>)) ''mapOk''
          [Cb (\<lambda>x w. (Inr (Arr 7 [x]), Suc w))] \<lparr>nextAddr = 1, world = 0\<rparr>)
       (\<lambda>r. invoke jsonText r ''mapOk'' [Cb (\<lambda>x w. (Inr (Str ''done''), w + 2))]))
     = observed (invoke jsonText (fst (ok (Num 5) \<lparr>nextAddr = 0, world = 0 :: nat\<rparr>)) ''mapOk''
          [Cb (composed (\<lambda>x w. (Inr (Arr 7 [x]), Suc w)) (\<lambda>x w. (Inr (Str ''done''), w + 2)))]
          \<lparr>nextAddr = 1, world = 0\<rparr>)"
    by (rule mapOk_laws [where S = jsonText and v = "Num 5" and e = Null
        and s = "\<lparr>nextAddr = 0, world = 0 :: nat\<rparr>" and t = "\<lparr>nextAddr = 1, world = 0\<rparr>"
        and f = "\<lambda>x w. (Inr (Arr 7 [x]), Suc w)" and g = "\<lambda>x w. (Inr (Str ''done''), w + 2)",
        THEN conjunct2, THEN conjunct2, THEN conjunct1])
  from eq rhs show ?thesis
    by (simp only:)
qed

subsection \<open>Unwrapping a deferred Result\<close>

lemma resolved_plain: "\<not> isPromise v \<Longrightarrow> resolved v = Some (Fulfilled v)"
  by (cases v) (simp_all add: resolved_def isPromise_def)

lemma resolved_native: "resolved (PromiseObj a st) = Some st"
  by (simp add: resolved_def)

lemma not_nullish_ok: "\<not> nullish (fst (ok v s))"
  by (simp add: nullish_def ok_def)

lemma not_nullish_err: "\<not> nullish (fst (err e s))"
  by (simp add: nullish_def err_def)

text \<open>
  Claim C8. For every promise that is fulfilled with a Result, \<^verbatim>\<open>asyncUnwrap\<close> returns
  a new promise. When the Result is Ok, that promise is resolved with the value: it is
  fulfilled with the value when the value is not a deferred value, and it settles as the
  value does when the value is a native promise, as every promise resolved with a
  promise does. When the Result is Err, the promise is rejected: with the error itself
  when it is a native error instance, and otherwise with the error that
  \<^verbatim>\<open>unknownToError\<close> makes of it.
\<close>

theorem asyncUnwrap_settles:
  fixes s t :: "'w state"
  shows
    "asyncUnwrap S (PromiseObj p (Fulfilled (fst (ok v s)))) t
       = map_option (\<lambda>st. (PromiseObj (nextAddr t) st, t\<lparr>nextAddr := Suc (nextAddr t)\<rparr>))
           (resolved v)
   \<and> (\<not> isPromise v \<longrightarrow>
        asyncUnwrap S (PromiseObj p (Fulfilled (fst (ok v s)))) t
          = Some (PromiseObj (nextAddr t) (Fulfilled v), t\<lparr>nextAddr := Suc (nextAddr t)\<rparr>))
   \<and> (instanceofError e \<longrightarrow>
        asyncUnwrap S (PromiseObj p (Fulfilled (fst (err e s)))) t
          = Some (PromiseObj (nextAddr t) (Rejected e), t\<lparr>nextAddr := Suc (nextAddr t)\<rparr>))
   \<and> (\<not> instanceofError e \<longrightarrow>
        asyncUnwrap S (PromiseObj p (Fulfilled (fst (err e s)))) t
          = Some (PromiseObj (nextAddr t)
                    (Rejected (fst (unknownToError S e (t\<lparr>nextAddr := Suc (nextAddr t)\<rparr>)))),
                  snd (unknownToError S e (t\<lparr>nextAddr := Suc (nextAddr t)\<rparr>))))"
  by (simp add: asyncUnwrap_def async_def resolved_native not_nullish_ok not_nullish_err
      field_ok field_err resolved_plain Let_def split: prod.splits)

theorem asyncUnwrap_settles_witness:
  "asyncUnwrap jsonText (PromiseObj 0 (Fulfilled (fst (ok (Num 5) \<lparr>nextAddr = 1, world = ()\<rparr>))))
       \<lparr>nextAddr = 2, world = ()\<rparr>
     = Some (PromiseObj 2 (Fulfilled (Num 5)), \<lparr>nextAddr = 3, world = ()\<rparr>)
   \<and> asyncUnwrap jsonText
       (PromiseObj 0 (Fulfilled (fst (err (ErrorObj 9 ''bad'' None) \<lparr>nextAddr = 1, world = ()\<rparr>))))
       \<lparr>nextAddr = 2, world = ()\<rparr>
     = Some (PromiseObj 2 (Rejected (ErrorObj 9 ''bad'' None)), \<lparr>nextAddr = 3, world = ()\<rparr>)
   \<and> asyncUnwrap jsonText
       (PromiseObj 0 (Fulfilled (fst (err (Bool True) \<lparr>nextAddr = 1, world = ()\<rparr>))))
       \<lparr>nextAddr = 2, world = ()\<rparr>
     = Some (PromiseObj 2 (Rejected (ErrorObj 3 ''true'' (Some (Bool True)))),
             \<lparr>nextAddr = 4, world = ()\<rparr>)
   \<and> asyncUnwrap jsonText
       (PromiseObj 0 (Fulfilled (fst (ok (PromiseObj 7 (Fulfilled (Num 5)))
          \<lparr>nextAddr = 1, world = ()\<rparr>))))
       \<lparr>nextAddr = 2, world = ()\<rparr>
     = Some (PromiseObj 2 (Fulfilled (Num 5)), \<lparr>nextAddr = 3, world = ()\<rparr>)"
  using asyncUnwrap_settles [where S = jsonText and v = "Num 5" and p = 0
      and s = "\<lparr>nextAddr = 1, world = ()\<rparr>" and t = "\<lparr>nextAddr = 2, world = ()\<rparr>"
      and e = "ErrorObj 9 ''bad'' None"]
    asyncUnwrap_settles [where S = jsonText and v = "PromiseObj 7 (Fulfilled (Num 5))" and p = 0
      and s = "\<lparr>nextAddr = 1, world = ()\<rparr>" and t = "\<lparr>nextAddr = 2, world = ()\<rparr>"
      and e = "Bool True"]
  by (simp add: isPromise_def isObject_def unknownToError_def newError_def resolved_def)

subsection \<open>A method that the Results lack\<close>

lemma no_mapToValue_member:
  "getProp (fst (ok v s)) ''mapToValue'' = None"
  "getProp (fst (err e s)) ''mapToValue'' = None"
  by (simp_all add: getProp_def members_ok members_err okMethods_def errMethods_def)

text \<open>
  Claim C5 says that every Result has a method \<^verbatim>\<open>mapToValue({ ok, err })\<close> that returns
  \<^verbatim>\<open>okFn(value)\<close> on Ok and \<^verbatim>\<open>errFn(error)\<close> on Err, and the tests of the repository
  call it so on \<^verbatim>\<open>ok(5)\<close> and on \<^verbatim>\<open>err(new Error('Cannot divide by zero'))\<close>. The
  Results that \<^verbatim>\<open>ok\<close> and \<^verbatim>\<open>err\<close> of \<^verbatim>\<open>main.ts\<close> build have no such member:
  neither method table lists it. On both Results reading \<^verbatim>\<open>mapToValue\<close> gives
  \<^verbatim>\<open>undefined\<close>, the guard's \<open>hasMethod\<close> is false, and the call has no function
  to run.
\<close>

theorem mapToValue_missing:
  "getProp (fst (ok (Num 5) \<lparr>nextAddr = 0, world = ()\<rparr>)) ''mapToValue'' = None
   \<and> field (fst (ok (Num 5) \<lparr>nextAddr = 0, world = ()\<rparr>)) ''mapToValue'' = Undefined
   \<and> \<not> hasMethod (fst (ok (Num 5) \<lparr>nextAddr = 0, world = ()\<rparr>)) ''mapToValue''
   \<and> invoke jsonText (fst (ok (Num 5) \<lparr>nextAddr = 0, world = ()\<rparr>)) ''mapToValue''
        [CbPair (\<lambda>x w. (Inr (Arr 7 [x]), w)) (\<lambda>x w. (Inr (Str ''failed''), w))]
        \<lparr>nextAddr = 1, world = ()\<rparr> = None
   \<and> getProp (fst (err (ErrorObj 0 ''Cannot divide by zero'' None) \<lparr>nextAddr = 1, world = ()\<rparr>))
        ''mapToValue'' = None
   \<and> field (fst (err (ErrorObj 0 ''Cannot divide by zero'' None) \<lparr>nextAddr = 1, world = ()\<rparr>))
        ''mapToValue'' = Undefined
   \<and> \<not> hasMethod (fst (err (ErrorObj 0 ''Cannot divide by zero'' None)
        \<lparr>nextAddr = 1, world = ()\<rparr>)) ''mapToValue''
   \<and> invoke jsonText (fst (err (ErrorObj 0 ''Cannot divide by zero'' None)
        \<lparr>nextAddr = 1, world = ()\<rparr>)) ''mapToValue''
        [CbPair (\<lambda>x w. (Inr (Arr 7 [x]), w)) (\<lambda>x w. (Inr (Str ''failed''), w))]
        \<lparr>nextAddr = 2, world = ()\<rparr> = None"
  by (simp add: no_mapToValue_member field_def hasMethod_def hasProp_def invoke_def)

subsection \<open>The part modelled from the spec\<close>

lemma thenOkCatchErr_native:
  "thenOkCatchErr S (PromiseObj p st) N s =
     (case st of
        Pending \<Rightarrow> Some (PromiseObj (Suc (nextAddr s)) Pending, s\<lparr>nextAddr := Suc (Suc (nextAddr s))\<rparr>)
      | Fulfilled v \<Rightarrow>
          Some (PromiseObj (Suc (nextAddr s))
                  (Fulfilled (fst (ok v (s\<lparr>nextAddr := Suc (Suc (nextAddr s))\<rparr>)))),
                snd (ok v (s\<lparr>nextAddr := Suc (Suc (nextAddr s))\<rparr>)))
      | Rejected x \<Rightarrow>
          (case normalizeToErr S N x (s\<lparr>nextAddr := Suc (Suc (nextAddr s))\<rparr>) of
             (Inr r, s1) \<Rightarrow> Some (PromiseObj (Suc (nextAddr s)) (Fulfilled r), s1)
           | (Inl y, s1) \<Rightarrow> Some (PromiseObj (Suc (nextAddr s)) (Rejected y), s1)))"
  by (simp add: thenOkCatchErr_def Let_def split: settlement.splits prod.splits)

lemma isPromise_native: "isPromise (PromiseObj p st)"
  by (simp add: isPromise_def)

text \<open>
  Claim C6. \<^verbatim>\<open>safeFn(fn, errorNormalizer?)\<close> is a function of the arguments of
  \<^verbatim>\<open>fn\<close> that hands them to \<^verbatim>\<open>fn\<close> and answers as \<^verbatim>\<open>resultify\<close> does for
  that call: the Ok of the value returned, when it is not deferred; the Err of the thrown
  value, normalized by \<^verbatim>\<open>unknownToError\<close> or by the normalizer given; and, when
  \<^verbatim>\<open>fn\<close> returns a native promise, a new promise that is fulfilled with the Ok of
  the value, fulfilled with the Err of the normalized rejection, or pending, as that
  promise is. \<^verbatim>\<open>safeFn\<close> is the one modelled from the spec.
\<close>

theorem safeFn_wraps:
  fixes s :: "'w state" and fn :: "'a \<Rightarrow> 'w thunk"
  shows
    "safeFn S fn N args s = resultify S (FnArg (fn args)) N s
   \<and> (fn args (world s) = (Inr v, w1) \<and> \<not> isPromise v \<longrightarrow>
        safeFn S fn N args s = Some (returned (ok v (s\<lparr>world := w1\<rparr>))))
   \<and> (fn args (world s) = (Inl x, w1) \<longrightarrow>
        safeFn S fn None args s =
          Some (returned (err (fst (unknownToError S x (s\<lparr>world := w1\<rparr>)))
                              (snd (unknownToError S x (s\<lparr>world := w1\<rparr>))))))
   \<and> (fn args (world s) = (Inl x, w1) \<and> n x w1 = (Inr e, w2) \<longrightarrow>
        safeFn S fn (Some n) args s = Some (returned (err e (s\<lparr>world := w2\<rparr>))))
   \<and> (fn args (world s) = (Inr (PromiseObj p (Fulfilled v)), w1) \<longrightarrow>
        safeFn S fn N args s =
          Some (Inr (PromiseObj (Suc (nextAddr s))
                       (Fulfilled (fst (ok v (s\<lparr>world := w1, nextAddr := Suc (Suc (nextAddr s))\<rparr>))))),
                s\<lparr>world := w1, nextAddr := Suc (Suc (Suc (nextAddr s)))\<rparr>))
   \<and> (fn args (world s) = (Inr (PromiseObj p (Rejected x)), w1) \<longrightarrow>
        safeFn S fn None args s =
          Some (Inr (PromiseObj (Suc (nextAddr s))
                       (Fulfilled (fst (unknownToResultError S x
                          (s\<lparr>world := w1, nextAddr := Suc (Suc (nextAddr s))\<rparr>))))),
                snd (unknownToResultError S x (s\<lparr>world := w1, nextAddr := Suc (Suc (nextAddr s))\<rparr>))))
   \<and> (fn args (world s) = (Inr (PromiseObj p (Rejected x)), w1) \<and> n x w1 = (Inr e, w2) \<longrightarrow>
        safeFn S fn (Some n) args s =
          Some (Inr (PromiseObj (Suc (nextAddr s))
                       (Fulfilled (fst (err e
                          (s\<lparr>nextAddr := Suc (Suc (nextAddr s)), world := w2\<rparr>))))),
                snd (err e (s\<lparr>nextAddr := Suc (Suc (nextAddr s)), world := w2\<rparr>))))
   \<and> (fn args (world s) = (Inr (PromiseObj p Pending), w1) \<longrightarrow>
        safeFn S fn N args s =
          Some (Inr (PromiseObj (Suc (nextAddr s)) Pending),
                (s\<lparr>world := w1, nextAddr := Suc (Suc (nextAddr s))\<rparr>)))"
proof -
  have sync: "fn args (world s) = (Inr v, w1) \<and> \<not> isPromise v \<longrightarrow>
        safeFn S fn N args s = Some (returned (ok v (s\<lparr>world := w1\<rparr>)))"
    by (simp add: safeFn_def resultify_def runThunk_def)
  have thrown: "fn args (world s) = (Inl x, w1) \<longrightarrow>
        safeFn S fn None args s =
          Some (returned (err (fst (unknownToError S x (s\<lparr>world := w1\<rparr>)))
                              (snd (unknownToError S x (s\<lparr>world := w1\<rparr>)))))"
    by (simp add: safeFn_def resultify_def runThunk_def normalizeToErr_def split: prod.splits)
  have normalized: "fn args (world s) = (Inl x, w1) \<and> n x w1 = (Inr e, w2) \<longrightarrow>
        safeFn S fn (Some n) args s = Some (returned (err e (s\<lparr>world := w2\<rparr>)))"
    by (simp add: safeFn_def resultify_def runThunk_def normalizeToErr_def runCallback_def
        andThen_def)
  have fulfilled: "fn args (world s) = (Inr (PromiseObj p (Fulfilled v)), w1) \<longrightarrow>
        safeFn S fn N args s =
          Some (Inr (PromiseObj (Suc (nextAddr s))
                       (Fulfilled (fst (ok v (s\<lparr>world := w1, nextAddr := Suc (Suc (nextAddr s))\<rparr>))))),
                s\<lparr>world := w1, nextAddr := Suc (Suc (Suc (nextAddr s)))\<rparr>)"
    by (simp add: safeFn_def resultify_def runThunk_def isPromise_native thenOkCatchErr_native
        returned_def) (simp add: ok_def)
  have rejected: "fn args (world s) = (Inr (PromiseObj p (Rejected x)), w1) \<longrightarrow>
        safeFn S fn None args s =
          Some (Inr (PromiseObj (Suc (nextAddr s))
                       (Fulfilled (fst (unknownToResultError S x
                          (s\<lparr>world := w1, nextAddr := Suc (Suc (nextAddr s))\<rparr>))))),
                snd (unknownToResultError S x (s\<lparr>world := w1, nextAddr := Suc (Suc (nextAddr s))\<rparr>)))"
    by (simp add: safeFn_def resultify_def runThunk_def isPromise_native thenOkCatchErr_native
        returned_def normalizeToErr_def unknownToResultError_def split: prod.splits)
  have rejectedNormalized:
    "fn args (world s) = (Inr (PromiseObj p (Rejected x)), w1) \<and> n x w1 = (Inr e, w2) \<longrightarrow>
        safeFn S fn (Some n) args s =
          Some (Inr (PromiseObj (Suc (nextAddr s))
                       (Fulfilled (fst (err e
                          (s\<lparr>nextAddr := Suc (Suc (nextAddr s)), world := w2\<rparr>))))),
                snd (err e (s\<lparr>nextAddr := Suc (Suc (nextAddr s)), world := w2\<rparr>)))"
    by (simp add: safeFn_def resultify_def runThunk_def isPromise_native thenOkCatchErr_native
        returned_def normalizeToErr_def runCallback_def andThen_def)
  have pending: "fn args (world s) = (Inr (PromiseObj p Pending), w1) \<longrightarrow>
        safeFn S fn N args s =
          Some (Inr (PromiseObj (Suc (nextAddr s)) Pending),
                (s\<lparr>world := w1, nextAddr := Suc (Suc (nextAddr s))\<rparr>))"
    by (simp add: safeFn_def resultify_def runThunk_def isPromise_native thenOkCatchErr_native
        returned_def)
  from sync thrown normalized fulfilled rejected rejectedNormalized pending show ?thesis
    by (simp add: safeFn_def)
qed


theorem safeFn_wraps_witness:
  "safeFn jsonText
       (\<lambda>(a, b) w. if b = 0 then (Inl (Str ''zero''), w) else (Inr (Num (a div b)), w))
       None (10, 2) \<lparr>nextAddr = 0, world = ()\<rparr>
     = Some (Inr (fst (ok (Num 5) \<lparr>nextAddr = 0, world = ()\<rparr>)), \<lparr>nextAddr = 1, world = ()\<rparr>)
   \<and> safeFn jsonText
       (\<lambda>(a, b) w. if b = 0 then (Inl (Str ''zero''), w) else (Inr (Num (a div b)), w))
       None (10, 0) \<lparr>nextAddr = 0, world = ()\<rparr>
     = Some (Inr (fst (err (ErrorObj 0 ''zero'' None) \<lparr>nextAddr = 1, world = ()\<rparr>)),
             \<lparr>nextAddr = 2, world = ()\<rparr>)
   \<and> safeFn jsonText
       (\<lambda>(a, b) w. if b = 0 then (Inl (Str ''zero''), w) else (Inr (Num (a div b)), w))
       (Some (\<lambda>x w. (Inr (Arr 9 [x]), w))) (10, 0) \<lparr>nextAddr = 0, world = ()\<rparr>
     = Some (Inr (fst (err (Arr 9 [Str ''zero'']) \<lparr>nextAddr = 0, world = ()\<rparr>)),
             \<lparr>nextAddr = 1, world = ()\<rparr>)
   \<and> safeFn jsonText (\<lambda>n w. (Inr (PromiseObj 3 (Fulfilled (Num n))), w)) None 1
       \<lparr>nextAddr = 4, world = ()\<rparr>
     = Some (Inr (PromiseObj 5 (Fulfilled (fst (ok (Num 1) \<lparr>nextAddr = 6, world = ()\<rparr>)))),
             \<lparr>nextAddr = 7, world = ()\<rparr>)"
proof -
  have sync: "safeFn jsonText
       (\<lambda>(a, b) w. if b = 0 then (Inl (Str ''zero''), w) else (Inr (Num (a div b)), w))
       None (10, 2) \<lparr>nextAddr = 0, world = ()\<rparr>
     = Some (returned (ok (Num 5) \<lparr>nextAddr = 0, world = ()\<rparr>))"
    using safeFn_wraps [where S = jsonText
      and fn = "\<lambda>(a, b) w. if b = 0 then (Inl (Str ''zero''), w) else (Inr (Num (a div b)), w)"
      and N = None and args = "(10, 2)" and s = "\<lparr>nextAddr = 0, world = ()\<rparr>"
      and v = "Num 5" and ?w1.0 = "()", THEN conjunct2, THEN conjunct1]
    by (simp add: isPromise_def isObject_def)
  have thrown: "safeFn jsonText
       (\<lambda>(a, b) w. if b = 0 then (Inl (Str ''zero''), w) else (Inr (Num (a div b)), w))
       None (10, 0) \<lparr>nextAddr = 0, world = ()\<rparr>
     = Some (returned (err (ErrorObj 0 ''zero'' None) \<lparr>nextAddr = 1, world = ()\<rparr>))"
    using safeFn_wraps [where S = jsonText
      and fn = "\<lambda>(a, b) w. if b = 0 then (Inl (Str ''zero''), w) else (Inr (Num (a div b)), w)"
      and args = "(10, 0)" and s = "\<lparr>nextAddr = 0, world = ()\<rparr>"
      and ?w1.0 = "()" and x = "Str ''zero''", THEN conjunct2, THEN conjunct2, THEN conjunct1]
    by (simp add: unknownToError_def newError_def)
  have normalized: "safeFn jsonText
       (\<lambda>(a, b) w. if b = 0 then (Inl (Str ''zero''), w) else (Inr (Num (a div b)), w))
       (Some (\<lambda>x w. (Inr (Arr 9 [x]), w))) (10, 0) \<lparr>nextAddr = 0, world = ()\<rparr>
     = Some (returned (err (Arr 9 [Str ''zero'']) \<lparr>nextAddr = 0, world = ()\<rparr>))"
    using safeFn_wraps [where S = jsonText
      and fn = "\<lambda>(a, b) w. if b = 0 then (Inl (Str ''zero''), w) else (Inr (Num (a div b)), w)"
      and args = "(10, 0)" and s = "\<lparr>nextAddr = 0, world = ()\<rparr>"
      and ?w1.0 = "()" and x = "Str ''zero''" and n = "\<lambda>x w. (Inr (Arr 9 [x]), w)"
      and e = "Arr 9 [Str ''zero'']" and ?w2.0 = "()",
      THEN conjunct2, THEN conjunct2, THEN conjunct2, THEN conjunct1]
    by simp
  have deferred: "safeFn jsonText (\<lambda>n w. (Inr (PromiseObj 3 (Fulfilled (Num n))), w)) None 1
       \<lparr>nextAddr = 4, world = ()\<rparr>
     = Some (Inr (PromiseObj 5 (Fulfilled (fst (ok (Num 1) \<lparr>nextAddr = 6, world = ()\<rparr>)))),
             \<lparr>nextAddr = 7, world = ()\<rparr>)"
    using safeFn_wraps [where S = jsonText
      and fn = "\<lambda>n w. (Inr (PromiseObj 3 (Fulfilled (Num n))), w)"
      and N = None and args = 1 and s = "\<lparr>nextAddr = 4, world = ()\<rparr>"
      and v = "Num 1" and ?w1.0 = "()" and p = 3,
      THEN conjunct2, THEN conjunct2, THEN conjunct2, THEN conjunct2, THEN conjunct1]
    by (simp add: ok_def)
  show ?thesis
    unfolding sync thrown normalized deferred
    by (simp add: returned_def ok_def err_def)
qed

end
